theory Spec2Isabelle
  imports Complex_Main
begin

section \<open>RotatingSquare: a shallow embedding of RotatingSquare.js\<close>

text \<open>
  JavaScript numbers are modelled as \<^typ>\<open>real\<close>: every statement below is a statement of
  exact arithmetic. Array indices and the collision mode are natural numbers.
\<close>

subsection \<open>The matrix library\<close>

text \<open>
  The script uses the classes \<open>Matrix4\<close> and \<open>Vector4\<close> of a matrix library whose code is
  not among the source files. The specification speaks of 4x4 matrices, a 4x4 matrix multiply
  and transformed corner positions; the library is modelled accordingly, as homogeneous 4x4
  matrices that act on column vectors, stored by columns (\<open>elements[0..3]\<close> is the first
  column), where every modifying method multiplies the receiver on the right by the matrix of
  the operation.
\<close>

text \<open>Modelled from the spec: the class \<open>Vector4\<close>, its four \<open>elements\<close>.\<close>

datatype Vector4 = Vector4 real real real real

text \<open>Modelled from the spec: the class \<open>Matrix4\<close>, its sixteen \<open>elements\<close> as four columns.\<close>

datatype Matrix4 = Matrix4 Vector4 Vector4 Vector4 Vector4

text \<open>Modelled from the spec: \<open>v.elements[0]\<close> to \<open>v.elements[3]\<close> of a \<open>Vector4\<close>.\<close>

fun elem0 :: "Vector4 \<Rightarrow> real" where
  "elem0 (Vector4 p0 p1 p2 p3) = p0"

fun elem1 :: "Vector4 \<Rightarrow> real" where
  "elem1 (Vector4 p0 p1 p2 p3) = p1"

fun elem2 :: "Vector4 \<Rightarrow> real" where
  "elem2 (Vector4 p0 p1 p2 p3) = p2"

fun elem3 :: "Vector4 \<Rightarrow> real" where
  "elem3 (Vector4 p0 p1 p2 p3) = p3"

text \<open>Modelled from the spec: \<open>new Matrix4()\<close> of the missing library, the identity matrix.\<close>

definition identity :: Matrix4 where
  "identity = Matrix4 (Vector4 1 0 0 0) (Vector4 0 1 0 0) (Vector4 0 0 1 0) (Vector4 0 0 0 1)"

text \<open>
  Modelled from the spec: \<open>m.multiplyVector4(p)\<close> of the missing library, the product of the
  matrix and the column vector.
\<close>

fun multiplyVector4 :: "Matrix4 \<Rightarrow> Vector4 \<Rightarrow> Vector4" where
  "multiplyVector4 (Matrix4 (Vector4 e0 e1 e2 e3) (Vector4 e4 e5 e6 e7)
                            (Vector4 e8 e9 e10 e11) (Vector4 e12 e13 e14 e15))
                   (Vector4 p0 p1 p2 p3) =
     Vector4 (p0 * e0 + p1 * e4 + p2 * e8 + p3 * e12)
             (p0 * e1 + p1 * e5 + p2 * e9 + p3 * e13)
             (p0 * e2 + p1 * e6 + p2 * e10 + p3 * e14)
             (p0 * e3 + p1 * e7 + p2 * e11 + p3 * e15)"

text \<open>
  Modelled from the spec: \<open>a.multiply(b)\<close> of the missing library, the 4x4 matrix multiply; the
  receiver becomes \<open>a * b\<close>.
\<close>

fun multiply :: "Matrix4 \<Rightarrow> Matrix4 \<Rightarrow> Matrix4" where
  "multiply a (Matrix4 b0 b1 b2 b3) =
     Matrix4 (multiplyVector4 a b0) (multiplyVector4 a b1)
             (multiplyVector4 a b2) (multiplyVector4 a b3)"

text \<open>
  Modelled from the spec: \<open>setTranslate(x, y, z)\<close> of the missing library, the translation
  matrix \<open>T(x, y, z)\<close>.
\<close>

definition setTranslate :: "real \<Rightarrow> real \<Rightarrow> real \<Rightarrow> Matrix4" where
  "setTranslate x y z =
     Matrix4 (Vector4 1 0 0 0) (Vector4 0 1 0 0) (Vector4 0 0 1 0) (Vector4 x y z 1)"

text \<open>
  Modelled from the spec: the scaling matrix \<open>S(x, y, z)\<close> of the missing library.
\<close>

definition setScale :: "real \<Rightarrow> real \<Rightarrow> real \<Rightarrow> Matrix4" where
  "setScale x y z =
     Matrix4 (Vector4 x 0 0 0) (Vector4 0 y 0 0) (Vector4 0 0 z 0) (Vector4 0 0 0 1)"

text \<open>
  Modelled from the spec: \<open>setRotate(angle, 0, 0, 1)\<close> of the missing library, the rotation
  \<open>R(angle)\<close> by \<open>angle\<close> degrees about the z axis, the only axis the script rotates about.
\<close>

definition setRotate :: "real \<Rightarrow> Matrix4" where
  "setRotate angle =
     (let c = cos (pi * angle / 180); s = sin (pi * angle / 180)
      in Matrix4 (Vector4 c s 0 0) (Vector4 (- s) c 0 0) (Vector4 0 0 1 0) (Vector4 0 0 0 1))"

text \<open>
  Modelled from the spec: \<open>m.translate(x, y, z)\<close> of the missing library, which composes the
  translation with the receiver.
\<close>

definition translateBy :: "Matrix4 \<Rightarrow> real \<Rightarrow> real \<Rightarrow> real \<Rightarrow> Matrix4" where
  "translateBy m x y z = multiply m (setTranslate x y z)"

text \<open>Modelled from the spec: \<open>m.scale(x, y, z)\<close> of the missing library.\<close>

definition scaleBy :: "Matrix4 \<Rightarrow> real \<Rightarrow> real \<Rightarrow> real \<Rightarrow> Matrix4" where
  "scaleBy m x y z = multiply m (setScale x y z)"

text \<open>Modelled from the spec: \<open>m.rotate(angle, 0, 0, 1)\<close> of the missing library.\<close>

definition rotateBy :: "Matrix4 \<Rightarrow> real \<Rightarrow> Matrix4" where
  "rotateBy m angle = multiply m (setRotate angle)"

text \<open>
  Modelled from the spec: \<open>setOrtho(left, right, bottom, top, near, far)\<close> of the missing
  library, the orthographic projection of the box onto the cube \<open>[-1, 1]\<close>.
\<close>

definition setOrtho :: "real \<Rightarrow> real \<Rightarrow> real \<Rightarrow> real \<Rightarrow> real \<Rightarrow> real \<Rightarrow> Matrix4" where
  "setOrtho lft rgt btm tp near far =
     (let rw = 1 / (rgt - lft); rh = 1 / (tp - btm); rd = 1 / (far - near)
      in Matrix4 (Vector4 (2 * rw) 0 0 0) (Vector4 0 (2 * rh) 0 0) (Vector4 0 0 (- 2 * rd) 0)
                 (Vector4 (- (rgt + lft) * rw) (- (tp + btm) * rh)
                          (- (far + near) * rd) 1))"

subsection \<open>Strings and numbers of the host language\<close>

text \<open>
  Strings are byte strings in UTF-8. \<open>String.fromCharCode(n)\<close> is the string of the one
  UTF-16 code unit \<open>n mod 65536\<close>.
\<close>

definition fromCharCode :: "nat \<Rightarrow> string" where
  "fromCharCode n =
     (let u = n mod 65536
      in if u < 128 then [char_of u]
         else if u < 2048 then [char_of (192 + u div 64), char_of (128 + u mod 64)]
         else [char_of (224 + u div 4096), char_of (128 + (u div 64) mod 64),
               char_of (128 + u mod 64)])"

text \<open>
  The remainder operator \<open>a % b\<close> on numbers: the quotient is truncated towards zero, so the
  result has the sign of \<open>a\<close>.
\<close>

definition js_rem :: "real \<Rightarrow> real \<Rightarrow> real" where
  "js_rem a b = a - b * of_int (if a / b < 0 then \<lceil>a / b\<rceil> else \<lfloor>a / b\<rfloor>)"

subsection \<open>Global data\<close>

definition vertices :: "real list" where
  "vertices = [- 0.5, - 0.5,
               0.5, - 0.5,
               0.5, 0.5,
               - 0.5, - 0.5,
               0.5, 0.5,
               - 0.5, 0.5]"

definition numPoints :: nat where
  "numPoints = length vertices div 2"

definition colors :: "real list" where
  "colors = [1.0, 0.5, 0.5, 1.0,
             0.0, 1.0, 0.5, 1.0,
             0.5, 0.5, 1.0, 1.0,
             1.0, 0.5, 0.5, 1.0,
             0.5, 0.5, 1.0, 1.0,
             1.0, 1.0, 1.0, 1.0]"

definition wsize :: real where
  "wsize = 5"

definition getVertex :: "nat \<Rightarrow> real \<times> real" where
  "getVertex i = (let j = (i mod numPoints) * 2 in (vertices ! j, vertices ! (j + 1)))"

subsection \<open>Program state\<close>

text \<open>
  The globals the script assigns, and the variables of the closure \<open>runanimation\<close>
  (\<open>ang\<close>, \<open>tx\<close>, \<open>ty\<close>, \<open>increment\<close>, \<open>currentCorner\<close>).
\<close>

record state =
  cindex :: nat
  click :: bool
  modelMatrix :: Matrix4
  projectionMatrix :: Matrix4
  collisionMode :: nat
  scale :: real
  ang :: real
  tx :: real
  ty :: real
  increment :: real
  currentCorner :: Vector4

definition initial :: state where
  "initial =
     \<lparr> cindex = 0, click = False, modelMatrix = identity,
       projectionMatrix = setOrtho (- wsize / 2) (wsize / 2) (- wsize / 2) (wsize / 2) 0 1,
       collisionMode = 0, scale = 1.0, ang = 0.0, tx = 0, ty = 0, increment = 2.0,
       currentCorner = Vector4 (fst (getVertex 0)) (snd (getVertex 0)) 0.0 1.0 \<rparr>"

subsection \<open>Keyboard\<close>

text \<open>
  A keydown event: its \<open>key\<close> (the empty string when the property is missing or empty) and
  its \<open>which\<close> code. \<open>getChar\<close> is \<open>event.key || String.fromCharCode(event.which)\<close>; the
  browser always passes the event to the handler.
\<close>

record KeyboardEvent =
  key :: string
  which :: nat

definition getChar :: "KeyboardEvent \<Rightarrow> string" where
  "getChar event = (if key event \<noteq> [] then key event else fromCharCode (which event))"

definition handleKeyPress :: "KeyboardEvent \<Rightarrow> state \<Rightarrow> state" where
  "handleKeyPress event s =
     (let ch = getChar event
      in if ch = ''r'' then (s\<lparr>cindex := 0\<rparr>)\<lparr>click := True\<rparr>
         else if ch = ''g'' then (s\<lparr>cindex := 1\<rparr>)\<lparr>click := True\<rparr>
         else if ch = ''b'' then (s\<lparr>cindex := 2\<rparr>)\<lparr>click := True\<rparr>
         else if ch = ''w'' then (s\<lparr>cindex := 5\<rparr>)\<lparr>click := True\<rparr>
         else if ch = ''ArrowUp'' then
           (if scale s < 1.5 then s\<lparr>scale := scale s + 0.1\<rparr> else s)\<lparr>click := True\<rparr>
         else if ch = ''ArrowDown'' then
           (if scale s > 0.5 then s\<lparr>scale := scale s - 0.1\<rparr> else s)\<lparr>click := True\<rparr>
         else if ch = ''0'' then (s\<lparr>collisionMode := 0\<rparr>)\<lparr>click := True\<rparr>
         else if ch = ''1'' then (s\<lparr>collisionMode := 1\<rparr>)\<lparr>click := True\<rparr>
         else s)"

subsection \<open>The model transform\<close>

text \<open>
  The parameters \<open>ang\<close>, \<open>tx\<close>, \<open>ty\<close> of the source are written \<open>a\<close>, \<open>t_x\<close>, \<open>t_y\<close>, since
  the state has fields of these names.
\<close>

definition rotateAndScaleAboutCorner ::
    "real \<Rightarrow> real \<Rightarrow> real \<Rightarrow> real \<Rightarrow> real \<Rightarrow> state \<Rightarrow> state" where
  "rotateAndScaleAboutCorner a x y t_x t_y s =
     (let m1 = setTranslate x y 0.0;
          m2 = scaleBy m1 (scale s) (scale s) 1;
          m3 = rotateBy m2 a;
          m4 = translateBy m3 (- x) (- y) 0.0;
          m5 = translateBy m4 t_x t_y 0.0
      in s\<lparr>modelMatrix := m5\<rparr>)"

subsection \<open>Collisions\<close>

datatype collisionType = OnLeft | OnRight | OnUp | OnDown

definition cornerIndexes :: "nat list" where
  "cornerIndexes = [0, 1, 2, 5]"

definition getTransformedPosition :: "nat \<Rightarrow> state \<Rightarrow> real \<times> real" where
  "getTransformedPosition index s =
     (let vertex = getVertex index;
          position = multiplyVector4 (modelMatrix s) (Vector4 (fst vertex) (snd vertex) 0.0 1.0)
      in (elem0 position, elem1 position))"

text \<open>The \<open>switch\<close> of \<open>processCollision\<close>, which sets \<open>translateMatrix\<close>.\<close>

definition fixTranslation :: "collisionType \<Rightarrow> Matrix4" where
  "fixTranslation collision =
     (let fixAmount = 0.08
      in case collision of
           OnLeft \<Rightarrow> setTranslate fixAmount 0 0
         | OnRight \<Rightarrow> setTranslate (- fixAmount) 0 0
         | OnUp \<Rightarrow> setTranslate 0 (- fixAmount) 0
         | OnDown \<Rightarrow> setTranslate 0 fixAmount 0)"

definition processCollision :: "nat \<Rightarrow> real \<times> real \<Rightarrow> collisionType \<Rightarrow> state \<Rightarrow> state" where
  "processCollision collidedIndex position collision s =
     (let translateMatrix = fixTranslation collision;
          s1 = s\<lparr>modelMatrix := multiply translateMatrix (modelMatrix s)\<rparr>
      in if collisionMode s1 = 0 then (s1\<lparr>cindex := collidedIndex\<rparr>)\<lparr>click := True\<rparr>
         else s1\<lparr>increment := increment s1 * (- 1)\<rparr>)"

text \<open>One iteration of the loop of \<open>detectcollision\<close>, for the corner \<open>cornerIndexes[i]\<close>.\<close>

definition checkCorner :: "state \<Rightarrow> nat \<Rightarrow> state" where
  "checkCorner s corner =
     (let position = getTransformedPosition corner s;
          x = fst position;
          y = snd position
      in if x < - wsize / 2 then processCollision corner (x, y) OnLeft s
         else if x > wsize / 2 then processCollision corner (x, y) OnRight s
         else if y < - wsize / 2 then processCollision corner (x, y) OnDown s
         else if y > wsize / 2 then processCollision corner (x, y) OnUp s
         else s)"

definition detectcollision :: "state \<Rightarrow> state" where
  "detectcollision s = foldl checkCorner s cornerIndexes"

subsection \<open>One animation frame\<close>

text \<open>
  The body of the callback that \<open>runanimation\<close> is bound to. \<open>draw\<close> only reads the state and
  \<open>requestAnimationFrame\<close> schedules the next call.
\<close>

text \<open>The branch \<open>if (click)\<close> of the callback.\<close>

definition reanchor :: "state \<Rightarrow> state" where
  "reanchor s =
     (let vx = fst (getVertex (cindex s));
          vy = snd (getVertex (cindex s));
          c0 = Vector4 vx vy (elem2 (currentCorner s)) (elem3 (currentCorner s));
          c1 = multiplyVector4 (modelMatrix s) c0
      in s\<lparr>currentCorner := c1, tx := elem0 c1 - vx, ty := elem1 c1 - vy, click := False\<rparr>)"

definition runanimation :: "state \<Rightarrow> state" where
  "runanimation s =
     (let s1 = detectcollision s;
          s2 = s1\<lparr>ang := ang s1 + increment s1\<rparr>;
          s3 = s2\<lparr>ang := js_rem (ang s2) 360\<rparr>;
          s4 = (if click s3 then reanchor s3 else s3)
      in rotateAndScaleAboutCorner (ang s4) (elem0 (currentCorner s4)) (elem1 (currentCorner s4))
           (tx s4) (ty s4) s4)"


text \<open>The program as a reaction to events: key presses and animation frames, in any order.\<close>

datatype event = KeyDown KeyboardEvent | Frame

fun step :: "state \<Rightarrow> event \<Rightarrow> state" where
  "step s (KeyDown e) = handleKeyPress e s"
| "step s Frame = runanimation s"

definition run :: "event list \<Rightarrow> state" where
  "run evs = foldl step initial evs"

subsection \<open>The earlier revision of the collision code\<close>

text \<open>
  The second source file differs from \<open>RotatingSquare.js\<close> in the collision code only:
  \<open>doCollision\<close> takes the collision as a number and looks the translation up in an object
  (here \<open>translationsTable\<close>). A number without an entry gives \<open>undefined\<close>, whose indexing
  throws (the result \<open>None\<close>). \<open>visitCorner\<close> is one iteration of the loop of
  \<open>detectCollision\<close>.
\<close>

definition translationsTable :: "nat \<rightharpoonup> real \<times> real \<times> real" where
  "translationsTable =
     (let translationAmount = 0.08
      in [0 \<mapsto> (translationAmount, 0, 0),
          1 \<mapsto> (- translationAmount, 0, 0),
          2 \<mapsto> (0, - translationAmount, 0),
          3 \<mapsto> (0, translationAmount, 0)])"

definition doCollision :: "nat \<Rightarrow> nat \<Rightarrow> state \<Rightarrow> state option" where
  "doCollision collidedIndex collision s =
     (case translationsTable collision of
        None \<Rightarrow> None
      | Some translation \<Rightarrow>
          (let translateMatrix =
                 setTranslate (fst translation) (fst (snd translation)) (snd (snd translation));
               s1 = s\<lparr>modelMatrix := multiply translateMatrix (modelMatrix s)\<rparr>
           in Some (if collisionMode s1 = 0 then (s1\<lparr>cindex := collidedIndex\<rparr>)\<lparr>click := True\<rparr>
                    else s1\<lparr>increment := increment s1 * (- 1)\<rparr>)))"

definition visitCorner :: "state \<Rightarrow> nat \<Rightarrow> state option" where
  "visitCorner s cornerIndex =
     (let position = getTransformedPosition cornerIndex s;
          x = fst position;
          y = snd position;
          halfSize = wsize / 2
      in if x < - halfSize then doCollision cornerIndex 0 s
         else if x > halfSize then doCollision cornerIndex 1 s
         else if y < - halfSize then doCollision cornerIndex 3 s
         else if y > halfSize then doCollision cornerIndex 2 s
         else Some s)"

fun visitCorners :: "state \<Rightarrow> nat list \<Rightarrow> state option" where
  "visitCorners s [] = Some s"
| "visitCorners s (c # cs) =
     (case visitCorner s c of None \<Rightarrow> None | Some s1 \<Rightarrow> visitCorners s1 cs)"

definition detectCollision :: "state \<Rightarrow> state option" where
  "detectCollision s = visitCorners s cornerIndexes"

subsection \<open>Notions of the specification\<close>

text \<open>
  The violations of the viewport \<open>[-2.5, 2.5] x [-2.5, 2.5]\<close> by a position, and the first of
  them in the order left, right, bottom, top.
\<close>

definition violated :: "collisionType \<Rightarrow> real \<times> real \<Rightarrow> bool" where
  "violated d p =
     (case d of
        OnLeft \<Rightarrow> fst p < - 2.5
      | OnRight \<Rightarrow> fst p > 2.5
      | OnDown \<Rightarrow> snd p < - 2.5
      | OnUp \<Rightarrow> snd p > 2.5)"

definition firstViolation :: "real \<times> real \<Rightarrow> collisionType option" where
  "firstViolation p = find (\<lambda>d. violated d p) [OnLeft, OnRight, OnDown, OnUp]"


text \<open>
  The triangles that \<open>gl.drawArrays(gl.TRIANGLES, 0, numPoints)\<close> draws, one for every three
  consecutive vertices, and the points of a filled triangle: those on one side of all three
  edges.
\<close>

definition triangle :: "nat \<Rightarrow> (real \<times> real) \<times> (real \<times> real) \<times> (real \<times> real)" where
  "triangle t = (getVertex (3 * t), getVertex (3 * t + 1), getVertex (3 * t + 2))"

definition triangles :: "((real \<times> real) \<times> (real \<times> real) \<times> (real \<times> real)) list" where
  "triangles = map triangle [0 ..< numPoints div 3]"

definition edge :: "real \<times> real \<Rightarrow> real \<times> real \<Rightarrow> real \<times> real \<Rightarrow> real" where
  "edge a b p = (fst b - fst a) * (snd p - snd a) - (snd b - snd a) * (fst p - fst a)"

definition inTriangle ::
    "real \<times> real \<Rightarrow> (real \<times> real) \<times> (real \<times> real) \<times> (real \<times> real) \<Rightarrow> bool" where
  "inTriangle p t =
     (let a = fst t; b = fst (snd t); c = snd (snd t)
      in (0 \<le> edge a b p \<and> 0 \<le> edge b c p \<and> 0 \<le> edge c a p)
         \<or> (edge a b p \<le> 0 \<and> edge b c p \<le> 0 \<and> edge c a p \<le> 0))"



section \<open>Properties\<close>

subsection \<open>Evaluation and field lemmas\<close>

lemma vertex_values:
  "getVertex 0 = (- 0.5, - 0.5)" "getVertex 1 = (0.5, - 0.5)"
  "getVertex (Suc 0) = (0.5, - 0.5)"
  "getVertex 2 = (0.5, 0.5)" "getVertex 5 = (- 0.5, 0.5)"
  by (simp_all add: getVertex_def numPoints_def vertices_def)

lemma processCollision_fields:
  "modelMatrix (processCollision c p d s) = multiply (fixTranslation d) (modelMatrix s)"
  "collisionMode s = 0 \<Longrightarrow> cindex (processCollision c p d s) = c"
  "collisionMode s = 0 \<Longrightarrow> click (processCollision c p d s)"
  "collisionMode s = 0 \<Longrightarrow> increment (processCollision c p d s) = increment s"
  "collisionMode s \<noteq> 0 \<Longrightarrow> cindex (processCollision c p d s) = cindex s"
  "collisionMode s \<noteq> 0 \<Longrightarrow> click (processCollision c p d s) = click s"
  "collisionMode s \<noteq> 0 \<Longrightarrow> increment (processCollision c p d s) = - increment s"
  by (simp_all add: processCollision_def Let_def)

lemma foldl_take_Suc:
  "k < length xs \<Longrightarrow> foldl f s (take (Suc k) xs) = f (foldl f s (take k xs)) (xs ! k)"
  by (simp add: take_Suc_conv_app_nth)

lemma checkCorner_left:
  "fst (getTransformedPosition c s) < - wsize / 2 \<Longrightarrow>
   checkCorner s c = processCollision c (getTransformedPosition c s) OnLeft s"
  by (simp add: checkCorner_def Let_def)

lemma checkCorner_right:
  "fst (getTransformedPosition c s) > wsize / 2 \<Longrightarrow>
   checkCorner s c = processCollision c (getTransformedPosition c s) OnRight s"
  by (simp add: checkCorner_def Let_def wsize_def)

lemma checkCorner_down:
  "- wsize / 2 \<le> fst (getTransformedPosition c s) \<Longrightarrow>
   fst (getTransformedPosition c s) \<le> wsize / 2 \<Longrightarrow>
   snd (getTransformedPosition c s) < - wsize / 2 \<Longrightarrow>
   checkCorner s c = processCollision c (getTransformedPosition c s) OnDown s"
  by (simp add: checkCorner_def Let_def wsize_def)

lemma checkCorner_up:
  "- wsize / 2 \<le> fst (getTransformedPosition c s) \<Longrightarrow>
   fst (getTransformedPosition c s) \<le> wsize / 2 \<Longrightarrow>
   snd (getTransformedPosition c s) > wsize / 2 \<Longrightarrow>
   checkCorner s c = processCollision c (getTransformedPosition c s) OnUp s"
  by (simp add: checkCorner_def Let_def wsize_def)

subsection \<open>Collision response\<close>

text \<open>
  C1. In a frame, \<open>detectcollision\<close> visits the tracked corners in order; \<open>before\<close> and
  \<open>after\<close> are the states around the visit of the \<open>k\<close>-th corner, whose position under the
  model matrix of \<open>before\<close> is \<open>(x, y)\<close>. If that position is beyond the half-extent of the
  viewport on an axis, then in mode 0 the visit makes the corner the active one and sets the
  click flag (leaving the increment alone), in mode 1 it negates the increment (leaving the
  active corner and the flag alone), and in both modes it multiplies the model matrix on the
  left by a translation of 0.08 against a violated axis.
\<close>

theorem collision_response:
  fixes s :: state and k :: nat
  defines "before \<equiv> foldl checkCorner s (take k cornerIndexes)"
  defines "after \<equiv> foldl checkCorner s (take (Suc k) cornerIndexes)"
  defines "corner \<equiv> cornerIndexes ! k"
  defines "x \<equiv> fst (getTransformedPosition corner before)"
  defines "y \<equiv> snd (getTransformedPosition corner before)"
  assumes k: "k < length cornerIndexes"
    and out: "x < - wsize / 2 \<or> x > wsize / 2 \<or> y < - wsize / 2 \<or> y > wsize / 2"
  shows "(collisionMode before = 0 \<longrightarrow>
            cindex after = corner \<and> click after \<and> increment after = increment before)
       \<and> (collisionMode before = 1 \<longrightarrow>
            increment after = - increment before \<and> cindex after = cindex before
            \<and> click after = click before)
       \<and> (x < - wsize / 2
             \<and> modelMatrix after = multiply (setTranslate 0.08 0 0) (modelMatrix before)
          \<or> x > wsize / 2
             \<and> modelMatrix after = multiply (setTranslate (- 0.08) 0 0) (modelMatrix before)
          \<or> y < - wsize / 2
             \<and> modelMatrix after = multiply (setTranslate 0 0.08 0) (modelMatrix before)
          \<or> y > wsize / 2
             \<and> modelMatrix after = multiply (setTranslate 0 (- 0.08) 0) (modelMatrix before))"
proof -
  have step: "after = checkCorner before corner"
    unfolding after_def before_def corner_def using k by (rule foldl_take_Suc)
  let ?p = "getTransformedPosition corner before"
  consider (l) "x < - wsize / 2"
    | (r) "x > wsize / 2"
    | (d) "- wsize / 2 \<le> x" "x \<le> wsize / 2" "y < - wsize / 2"
    | (u) "- wsize / 2 \<le> x" "x \<le> wsize / 2" "y > wsize / 2"
    using out by linarith
  then obtain d where d: "after = processCollision corner ?p d before"
    and dir: "d = OnLeft \<and> x < - wsize / 2 \<or> d = OnRight \<and> x > wsize / 2
            \<or> d = OnDown \<and> y < - wsize / 2 \<or> d = OnUp \<and> y > wsize / 2"
  proof cases
    case l
    then show ?thesis using that [of OnLeft] checkCorner_left [of corner before]
      by (simp add: step x_def)
  next
    case r
    then show ?thesis using that [of OnRight] checkCorner_right [of corner before]
      by (simp add: step x_def)
  next
    case d
    then show ?thesis using that [of OnDown] checkCorner_down [of corner before]
      by (simp add: step x_def y_def)
  next
    case u
    then show ?thesis using that [of OnUp] checkCorner_up [of corner before]
      by (simp add: step x_def y_def)
  qed
  have m: "modelMatrix after = multiply (fixTranslation d) (modelMatrix before)"
    unfolding d by (rule processCollision_fields)
  have tr: "x < - wsize / 2
             \<and> modelMatrix after = multiply (setTranslate 0.08 0 0) (modelMatrix before)
          \<or> x > wsize / 2
             \<and> modelMatrix after = multiply (setTranslate (- 0.08) 0 0) (modelMatrix before)
          \<or> y < - wsize / 2
             \<and> modelMatrix after = multiply (setTranslate 0 0.08 0) (modelMatrix before)
          \<or> y > wsize / 2
             \<and> modelMatrix after = multiply (setTranslate 0 (- 0.08) 0) (modelMatrix before)"
    using dir m by (cases d) (simp_all add: fixTranslation_def)
  show ?thesis using tr by (simp add: d processCollision_fields)
qed

theorem collision_response_witness:
  "1 < length cornerIndexes
   \<and> fst (getTransformedPosition (cornerIndexes ! 1)
        (foldl checkCorner (initial\<lparr>modelMatrix := setTranslate 2.2 0 0\<rparr>)
           (take 1 cornerIndexes))) > wsize / 2
   \<and> cindex (foldl checkCorner (initial\<lparr>modelMatrix := setTranslate 2.2 0 0\<rparr>)
        (take (Suc 1) cornerIndexes)) = 1
   \<and> click (foldl checkCorner (initial\<lparr>modelMatrix := setTranslate 2.2 0 0\<rparr>)
        (take (Suc 1) cornerIndexes))
   \<and> collisionMode (foldl checkCorner
        (initial\<lparr>collisionMode := 1, modelMatrix := setTranslate 2.2 0 0\<rparr>)
        (take 1 cornerIndexes)) = 1
   \<and> increment (foldl checkCorner
        (initial\<lparr>collisionMode := 1, modelMatrix := setTranslate 2.2 0 0\<rparr>)
        (take (Suc 1) cornerIndexes)) = - 2
   \<and> cindex (foldl checkCorner
        (initial\<lparr>collisionMode := 1, modelMatrix := setTranslate 2.2 0 0\<rparr>)
        (take (Suc 1) cornerIndexes)) = 0"
  using collision_response [where k = 1 and s = "initial\<lparr>modelMatrix := setTranslate 2.2 0 0\<rparr>"]
    collision_response [where k = 1
      and s = "initial\<lparr>collisionMode := 1, modelMatrix := setTranslate 2.2 0 0\<rparr>"]
  by (simp add: cornerIndexes_def checkCorner_def getTransformedPosition_def vertex_values
      wsize_def initial_def setTranslate_def Let_def processCollision_def)

text \<open>
  The earlier revision computes the same collision check: the numbers 0, 1, 3, 2 it passes to
  \<open>doCollision\<close> select the translations of left, right, down and up.
\<close>

lemma doCollision_processCollision:
  "doCollision c 0 s = Some (processCollision c p OnLeft s)"
  "doCollision c (Suc 0) s = Some (processCollision c p OnRight s)"
  "doCollision c 3 s = Some (processCollision c p OnDown s)"
  "doCollision c 2 s = Some (processCollision c p OnUp s)"
  by (simp_all add: doCollision_def processCollision_def translationsTable_def
      fixTranslation_def Let_def)

lemma visitCorner_checkCorner: "visitCorner s c = Some (checkCorner s c)"
  by (simp add: visitCorner_def checkCorner_def Let_def doCollision_processCollision)

lemma visitCorners_foldl: "visitCorners s cs = Some (foldl checkCorner s cs)"
  by (induction cs arbitrary: s) (simp_all add: visitCorner_checkCorner)

lemma detectCollision_detectcollision: "detectCollision s = Some (detectcollision s)"
  by (simp add: detectCollision_def detectcollision_def visitCorners_foldl)

lemma multiplyVector4_multiply:
  "multiplyVector4 (multiply a b) p = multiplyVector4 a (multiplyVector4 b p)"
proof -
  obtain a0 a1 a2 a3 where a: "a = Matrix4 a0 a1 a2 a3" by (cases a)
  obtain b0 b1 b2 b3 where b: "b = Matrix4 b0 b1 b2 b3" by (cases b)
  obtain p0 p1 p2 p3 where p: "p = Vector4 p0 p1 p2 p3" by (cases p)
  show ?thesis
    unfolding a b p
    by (cases a0; cases a1; cases a2; cases a3; cases b0; cases b1; cases b2; cases b3)
       (simp add: algebra_simps)
qed

text \<open>
  C2, as the code has it. A visit of a corner at \<open>(x, y)\<close> multiplies the model matrix on the
  left by the translation \<open>(+0.08, 0)\<close> when \<open>x < -wsize/2\<close> and by \<open>(-0.08, 0)\<close> when
  \<open>x > wsize/2\<close>; when \<open>x\<close> is within \<open>[-wsize/2, wsize/2]\<close>, by \<open>(0, +0.08)\<close> when
  \<open>y < -wsize/2\<close> and by \<open>(0, -0.08)\<close> when \<open>y > wsize/2\<close>. A translation multiplied on the left
  acts after the transform that was there: it moves every transformed point by \<open>(dx, dy)\<close>.
\<close>

theorem corrective_translation:
  fixes s :: state and corner :: nat
  defines "x \<equiv> fst (getTransformedPosition corner s)"
  defines "y \<equiv> snd (getTransformedPosition corner s)"
  defines "m \<equiv> modelMatrix s"
  defines "m' \<equiv> modelMatrix (checkCorner s corner)"
  shows "(x < - wsize / 2 \<longrightarrow> m' = multiply (setTranslate 0.08 0 0) m)
       \<and> (x > wsize / 2 \<longrightarrow> m' = multiply (setTranslate (- 0.08) 0 0) m)
       \<and> (- wsize / 2 \<le> x \<and> x \<le> wsize / 2 \<and> y < - wsize / 2 \<longrightarrow>
            m' = multiply (setTranslate 0 0.08 0) m)
       \<and> (- wsize / 2 \<le> x \<and> x \<le> wsize / 2 \<and> y > wsize / 2 \<longrightarrow>
            m' = multiply (setTranslate 0 (- 0.08) 0) m)
       \<and> multiplyVector4 (multiply (setTranslate dx dy 0) m) p =
           multiplyVector4 (setTranslate dx dy 0) (multiplyVector4 m p)
       \<and> multiplyVector4 (setTranslate dx dy 0) (Vector4 q0 q1 q2 1) =
           Vector4 (q0 + dx) (q1 + dy) q2 1"
  unfolding x_def y_def m_def m'_def
  by (simp add: checkCorner_left checkCorner_right checkCorner_down checkCorner_up
      processCollision_fields fixTranslation_def multiplyVector4_multiply)
     (simp add: setTranslate_def)

theorem corrective_translation_witness:
  "fst (getTransformedPosition 1 (initial\<lparr>modelMatrix := setTranslate 2.2 0 0\<rparr>)) > wsize / 2
   \<and> modelMatrix (checkCorner (initial\<lparr>modelMatrix := setTranslate 2.2 0 0\<rparr>) 1) =
       multiply (setTranslate (- 0.08) 0 0) (setTranslate 2.2 0 0)
   \<and> - wsize / 2 \<le> fst (getTransformedPosition 5 (initial\<lparr>modelMatrix := setTranslate 0 2.2 0\<rparr>))
   \<and> fst (getTransformedPosition 5 (initial\<lparr>modelMatrix := setTranslate 0 2.2 0\<rparr>)) \<le> wsize / 2
   \<and> snd (getTransformedPosition 5 (initial\<lparr>modelMatrix := setTranslate 0 2.2 0\<rparr>)) > wsize / 2
   \<and> modelMatrix (checkCorner (initial\<lparr>modelMatrix := setTranslate 0 2.2 0\<rparr>) 5) =
       multiply (setTranslate 0 (- 0.08) 0) (setTranslate 0 2.2 0)"
  using corrective_translation [where s = "initial\<lparr>modelMatrix := setTranslate 2.2 0 0\<rparr>"
          and corner = 1]
        corrective_translation [where s = "initial\<lparr>modelMatrix := setTranslate 0 2.2 0\<rparr>"
          and corner = 5]
  by (simp add: getTransformedPosition_def vertex_values wsize_def setTranslate_def)

text \<open>
  C2 as stated does not hold for a corner beyond the viewport on both axes: the tests on \<open>x\<close>
  come first, so a corner at \<open>(-2.6, -2.6)\<close>, whose \<open>y\<close> is below \<open>-wsize/2\<close>, is answered by
  the translation \<open>(+0.08, 0)\<close> and not by \<open>(0, +0.08)\<close>.
\<close>

theorem corrective_translation_counterexample:
  "snd (getTransformedPosition 0 (initial\<lparr>modelMatrix := setTranslate (- 2.1) (- 2.1) 0\<rparr>))
     < - wsize / 2
   \<and> modelMatrix (checkCorner (initial\<lparr>modelMatrix := setTranslate (- 2.1) (- 2.1) 0\<rparr>) 0) =
       multiply (setTranslate 0.08 0 0) (setTranslate (- 2.1) (- 2.1) 0)
   \<and> modelMatrix (checkCorner (initial\<lparr>modelMatrix := setTranslate (- 2.1) (- 2.1) 0\<rparr>) 0) \<noteq>
       multiply (setTranslate 0 0.08 0) (setTranslate (- 2.1) (- 2.1) 0)"
  by (simp add: checkCorner_def getTransformedPosition_def vertex_values wsize_def
      setTranslate_def processCollision_def fixTranslation_def Let_def)

subsection \<open>Collision check\<close>

lemma firstViolation_cases:
  "firstViolation p =
     (if fst p < - wsize / 2 then Some OnLeft
      else if fst p > wsize / 2 then Some OnRight
      else if snd p < - wsize / 2 then Some OnDown
      else if snd p > wsize / 2 then Some OnUp
      else None)"
  by (simp add: firstViolation_def violated_def wsize_def)

text \<open>
  C3. The collision check of a frame visits the vertices 0, 1, 2, 5, in this order, each under
  the model matrix current at its visit (in both revisions of the code); the half-extent is
  \<open>wsize / 2 = 2.5\<close>; a visit handles the first violation in the order left, right, bottom, top,
  by one call of \<open>processCollision\<close>, and changes nothing when there is none.
\<close>

theorem collision_check:
  "cornerIndexes = [0, 1, 2, 5] \<and> wsize / 2 = 2.5
   \<and> detectcollision s = checkCorner (checkCorner (checkCorner (checkCorner s 0) 1) 2) 5
   \<and> detectCollision s = Some (detectcollision s)
   \<and> getTransformedPosition c s =
       (elem0 (multiplyVector4 (modelMatrix s)
                 (Vector4 (fst (getVertex c)) (snd (getVertex c)) 0 1)),
        elem1 (multiplyVector4 (modelMatrix s)
                 (Vector4 (fst (getVertex c)) (snd (getVertex c)) 0 1)))
   \<and> checkCorner s c =
       (case firstViolation (getTransformedPosition c s) of
          None \<Rightarrow> s
        | Some d \<Rightarrow> processCollision c (getTransformedPosition c s) d s)"
  by (simp add: cornerIndexes_def wsize_def detectcollision_def getTransformedPosition_def
      Let_def firstViolation_cases checkCorner_def detectCollision_detectcollision)

subsection \<open>The pivot transform\<close>

text \<open>
  C4. The matrix built by \<open>rotateAndScaleAboutCorner\<close> is
  \<open>T(x,y) S(scale) R(ang) T(-x,-y) T(tx,ty)\<close>; it maps \<open>(x - tx, y - ty)\<close> to \<open>(x, y)\<close>, and with
  \<open>tx = ty = 0\<close> the pivot \<open>(x, y)\<close> is a fixed point.
\<close>

theorem pivot_transform:
  "modelMatrix (rotateAndScaleAboutCorner a x y t_x t_y s) =
     multiply (multiply (multiply (multiply (setTranslate x y 0) (setScale (scale s) (scale s) 1))
       (setRotate a)) (setTranslate (- x) (- y) 0)) (setTranslate t_x t_y 0)
   \<and> multiplyVector4 (modelMatrix (rotateAndScaleAboutCorner a x y t_x t_y s))
       (Vector4 (x - t_x) (y - t_y) 0 1) = Vector4 x y 0 1
   \<and> multiplyVector4 (modelMatrix (rotateAndScaleAboutCorner a x y 0 0 s))
       (Vector4 x y 0 1) = Vector4 x y 0 1"
  by (simp add: rotateAndScaleAboutCorner_def translateBy_def scaleBy_def rotateBy_def
      setTranslate_def setScale_def setRotate_def Let_def algebra_simps)

subsection \<open>What the collision check and the frame leave alone\<close>

lemma processCollision_keeps:
  "scale (processCollision c p d s) = scale s"
  "collisionMode (processCollision c p d s) = collisionMode s"
  "projectionMatrix (processCollision c p d s) = projectionMatrix s"
  "ang (processCollision c p d s) = ang s"
  "tx (processCollision c p d s) = tx s"
  "ty (processCollision c p d s) = ty s"
  "currentCorner (processCollision c p d s) = currentCorner s"
  by (simp_all add: processCollision_def Let_def)

lemma checkCorner_cases:
  obtains (none) "checkCorner s c = s" "firstViolation (getTransformedPosition c s) = None"
  | (some) d where "checkCorner s c = processCollision c (getTransformedPosition c s) d s"
      "firstViolation (getTransformedPosition c s) = Some d"
  by (cases "firstViolation (getTransformedPosition c s)")
     (simp_all add: checkCorner_def firstViolation_cases Let_def split: if_splits)

lemma checkCorner_keeps:
  "scale (checkCorner s c) = scale s"
  "collisionMode (checkCorner s c) = collisionMode s"
  "projectionMatrix (checkCorner s c) = projectionMatrix s"
  "ang (checkCorner s c) = ang s"
  "tx (checkCorner s c) = tx s"
  "ty (checkCorner s c) = ty s"
  "currentCorner (checkCorner s c) = currentCorner s"
  by (rule checkCorner_cases [of s c]; simp add: processCollision_keeps)+

lemma foldl_checkCorner_keeps:
  "scale (foldl checkCorner s cs) = scale s"
  "collisionMode (foldl checkCorner s cs) = collisionMode s"
  "projectionMatrix (foldl checkCorner s cs) = projectionMatrix s"
  "ang (foldl checkCorner s cs) = ang s"
  "tx (foldl checkCorner s cs) = tx s"
  "ty (foldl checkCorner s cs) = ty s"
  "currentCorner (foldl checkCorner s cs) = currentCorner s"
  by (induction cs arbitrary: s; simp add: checkCorner_keeps)+

lemma detectcollision_keeps:
  "scale (detectcollision s) = scale s"
  "collisionMode (detectcollision s) = collisionMode s"
  "projectionMatrix (detectcollision s) = projectionMatrix s"
  "ang (detectcollision s) = ang s"
  "tx (detectcollision s) = tx s"
  "ty (detectcollision s) = ty s"
  "currentCorner (detectcollision s) = currentCorner s"
  by (simp_all add: detectcollision_def foldl_checkCorner_keeps)

lemma rotateAndScaleAboutCorner_keeps:
  "scale (rotateAndScaleAboutCorner a x y t_x t_y s) = scale s"
  "collisionMode (rotateAndScaleAboutCorner a x y t_x t_y s) = collisionMode s"
  "projectionMatrix (rotateAndScaleAboutCorner a x y t_x t_y s) = projectionMatrix s"
  "ang (rotateAndScaleAboutCorner a x y t_x t_y s) = ang s"
  "tx (rotateAndScaleAboutCorner a x y t_x t_y s) = tx s"
  "ty (rotateAndScaleAboutCorner a x y t_x t_y s) = ty s"
  "currentCorner (rotateAndScaleAboutCorner a x y t_x t_y s) = currentCorner s"
  "cindex (rotateAndScaleAboutCorner a x y t_x t_y s) = cindex s"
  "click (rotateAndScaleAboutCorner a x y t_x t_y s) = click s"
  "increment (rotateAndScaleAboutCorner a x y t_x t_y s) = increment s"
  by (simp_all add: rotateAndScaleAboutCorner_def Let_def)

lemma reanchor_keeps:
  "scale (reanchor s) = scale s"
  "collisionMode (reanchor s) = collisionMode s"
  "projectionMatrix (reanchor s) = projectionMatrix s"
  "ang (reanchor s) = ang s"
  "cindex (reanchor s) = cindex s"
  "modelMatrix (reanchor s) = modelMatrix s"
  "increment (reanchor s) = increment s"
  "\<not> click (reanchor s)"
  by (simp_all add: reanchor_def Let_def)

lemma runanimation_keeps:
  "scale (runanimation s) = scale s"
  "collisionMode (runanimation s) = collisionMode s"
  "projectionMatrix (runanimation s) = projectionMatrix s"
  "cindex (runanimation s) = cindex (detectcollision s)"
  "\<not> click (runanimation s)"
  by (simp_all add: runanimation_def Let_def rotateAndScaleAboutCorner_keeps reanchor_keeps
      detectcollision_keeps)

lemma run_snoc: "run (evs @ [e]) = step (run evs) e"
  by (simp add: run_def)

lemma run_Nil: "run [] = initial"
  by (simp add: run_def)

subsection \<open>The scale factor\<close>

lemma handleKeyPress_scale:
  "scale (handleKeyPress e s) =
     (if getChar e = ''ArrowUp'' \<and> scale s < 1.5 then scale s + 0.1
      else if getChar e = ''ArrowDown'' \<and> scale s > 0.5 then scale s - 0.1
      else scale s)"
  by (simp add: handleKeyPress_def Let_def)

lemma handleKeyPress_scale_cases:
  obtains (up) "scale s < 1.5" "scale (handleKeyPress e s) = scale s + 0.1"
  | (down) "scale s > 0.5" "scale (handleKeyPress e s) = scale s - 0.1"
  | (same) "scale (handleKeyPress e s) = scale s"
proof (cases "getChar e = ''ArrowUp'' \<and> scale s < 1.5")
  case True
  then have "scale (handleKeyPress e s) = scale s + 0.1"
    unfolding handleKeyPress_scale by (rule if_P)
  with True show ?thesis using up by blast
next
  case notup: False
  then have rest: "scale (handleKeyPress e s) =
      (if getChar e = ''ArrowDown'' \<and> scale s > 0.5 then scale s - 0.1 else scale s)"
    unfolding handleKeyPress_scale by (rule if_not_P)
  show ?thesis
  proof (cases "getChar e = ''ArrowDown'' \<and> scale s > 0.5")
    case True
    then have "scale (handleKeyPress e s) = scale s - 0.1"
      unfolding rest by (rule if_P)
    with True show ?thesis using down by blast
  next
    case False
    then have "scale (handleKeyPress e s) = scale s"
      unfolding rest by (rule if_not_P)
    then show ?thesis by (rule same)
  qed
qed

lemma step_scale_grid:
  assumes "\<exists>k::int. - 5 \<le> k \<and> k \<le> 5 \<and> scale s = 1 + of_int k / 10"
  shows "\<exists>k::int. - 5 \<le> k \<and> k \<le> 5 \<and> scale (step s ev) = 1 + of_int k / 10"
proof (cases ev)
  case Frame
  then show ?thesis using assms by (simp add: runanimation_keeps)
next
  case (KeyDown e)
  from assms obtain k :: int where k: "- 5 \<le> k" "k \<le> 5" "scale s = 1 + of_int k / 10"
    by blast
  show ?thesis
  proof (rule handleKeyPress_scale_cases [of s e])
    assume up: "scale s < 1.5" "scale (handleKeyPress e s) = scale s + 0.1"
    then have "k < 5" using k by simp
    moreover have "scale (step s ev) = 1 + of_int (k + 1) / 10"
      using up k by (simp add: KeyDown field_simps)
    ultimately show ?thesis using k by (intro exI [of _ "k + 1"]) simp
  next
    assume down: "scale s > 0.5" "scale (handleKeyPress e s) = scale s - 0.1"
    then have "- 5 < k" using k by simp
    moreover have "scale (step s ev) = 1 + of_int (k - 1) / 10"
      using down k by (simp add: KeyDown field_simps)
    ultimately show ?thesis using k by (intro exI [of _ "k - 1"]) simp
  next
    assume "scale (handleKeyPress e s) = scale s"
    then show ?thesis using k by (auto simp: KeyDown)
  qed
qed

lemma run_scale_grid: "\<exists>k::int. - 5 \<le> k \<and> k \<le> 5 \<and> scale (run evs) = 1 + of_int k / 10"
proof (induction evs rule: rev_induct)
  case Nil
  show ?case by (intro exI [of _ 0]) (simp add: run_Nil initial_def)
next
  case (snoc e evs)
  then show ?case unfolding run_snoc by (rule step_scale_grid)
qed

text \<open>
  C8. In exact arithmetic the scale factor stays in \<open>[0.5, 1.5]\<close> after every sequence of key
  presses and frames: it starts at 1.0, ArrowUp adds 0.1 only when it is below 1.5, ArrowDown
  subtracts 0.1 only when it is above 0.5, and neither another key nor a frame changes it.
\<close>

theorem scale_bounds:
  "scale initial = 1.0
   \<and> 0.5 \<le> scale (run evs) \<and> scale (run evs) \<le> 1.5
   \<and> scale (runanimation s) = scale s
   \<and> scale (handleKeyPress e s) =
       (if getChar e = ''ArrowUp'' \<and> scale s < 1.5 then scale s + 0.1
        else if getChar e = ''ArrowDown'' \<and> scale s > 0.5 then scale s - 0.1
        else scale s)"
proof -
  obtain k :: int where k: "- 5 \<le> k" "k \<le> 5" "scale (run evs) = 1 + of_int k / 10"
    using run_scale_grid by blast
  have "(0.5::real) \<le> 1 + of_int k / 10" "1 + of_int k / 10 \<le> (1.5::real)"
    using k(1,2) by simp_all
  then show ?thesis
    by (simp add: k(3) initial_def runanimation_keeps handleKeyPress_scale)
qed

subsection \<open>The active corner\<close>

lemma handleKeyPress_cindex:
  "cindex (handleKeyPress e s) \<in> {cindex s, 0, 1, 2, 5}"
  by (simp add: handleKeyPress_def Let_def)

lemma checkCorner_cindex:
  "collisionMode s = 0 \<Longrightarrow> cindex (checkCorner s c) \<in> {cindex s, c}"
  "collisionMode s \<noteq> 0 \<Longrightarrow> cindex (checkCorner s c) = cindex s"
  by (rule checkCorner_cases [of s c]; simp add: processCollision_fields)+

lemma foldl_checkCorner_cindex:
  "cindex (foldl checkCorner s cs) \<in> insert (cindex s) (set cs)"
proof (induction cs arbitrary: s)
  case Nil
  show ?case by simp
next
  case (Cons c cs)
  have "cindex (checkCorner s c) \<in> {cindex s, c}"
    using checkCorner_cindex [of s c] by (cases "collisionMode s = 0") simp_all
  then show ?case using Cons [of "checkCorner s c"] by auto
qed

lemma foldl_checkCorner_cindex_mode1:
  "collisionMode s \<noteq> 0 \<Longrightarrow> cindex (foldl checkCorner s cs) = cindex s"
  by (induction cs arbitrary: s) (simp_all add: checkCorner_cindex checkCorner_keeps)

lemma detectcollision_cindex:
  "cindex (detectcollision s) \<in> insert (cindex s) (set cornerIndexes)"
  "collisionMode s \<noteq> 0 \<Longrightarrow> cindex (detectcollision s) = cindex s"
  unfolding detectcollision_def
  by (rule foldl_checkCorner_cindex, rule foldl_checkCorner_cindex_mode1)

lemma run_cindex: "cindex (run evs) \<in> {0, 1, 2, 5}"
proof (induction evs rule: rev_induct)
  case Nil
  show ?case by (simp add: run_Nil initial_def)
next
  case (snoc ev evs)
  show ?case
  proof (cases ev)
    case (KeyDown e)
    then show ?thesis
      using snoc handleKeyPress_cindex [of e "run evs"] by (auto simp: run_snoc)
  next
    case Frame
    then show ?thesis
      using snoc detectcollision_cindex(1) [of "run evs"]
      by (auto simp: run_snoc runanimation_keeps cornerIndexes_def)
  qed
qed

text \<open>
  C9. The active corner index is one of 0, 1, 2, 5 after every sequence of key presses and
  frames: it starts at 0, the key handler keeps it or assigns 0, 1, 2 or 5, a collision in
  mode 0 assigns the index of the colliding corner, which is taken from the list of tracked
  corners, and a collision in mode 1 keeps it.
\<close>

theorem cindex_tracked:
  "cindex initial = 0
   \<and> cindex (run evs) \<in> {0, 1, 2, 5}
   \<and> cindex (handleKeyPress e s) \<in> {cindex s, 0, 1, 2, 5}
   \<and> (collisionMode s = 0 \<longrightarrow> cindex (processCollision c p d s) = c)
   \<and> (collisionMode s = 0 \<longrightarrow>
        cindex (detectcollision s) \<in> insert (cindex s) (set cornerIndexes))
   \<and> set cornerIndexes = {0, 1, 2, 5}
   \<and> (collisionMode s = 1 \<longrightarrow> cindex (processCollision c p d s) = cindex s)
   \<and> (collisionMode s = 1 \<longrightarrow> cindex (detectcollision s) = cindex s)
   \<and> cindex (runanimation s) = cindex (detectcollision s)"
  using run_cindex [of evs] handleKeyPress_cindex [of e s] detectcollision_cindex [of s]
  by (simp add: initial_def processCollision_fields runanimation_keeps cornerIndexes_def)

theorem cindex_tracked_witness:
  "collisionMode (initial\<lparr>modelMatrix := setTranslate 2.2 0 0\<rparr>) = 0
   \<and> cindex (processCollision 1 (2.7, - 0.5) OnRight
        (initial\<lparr>modelMatrix := setTranslate 2.2 0 0\<rparr>)) = 1
   \<and> collisionMode (initial\<lparr>collisionMode := 1, modelMatrix := setTranslate 2.2 0 0\<rparr>) = 1
   \<and> cindex (detectcollision
        (initial\<lparr>collisionMode := 1, modelMatrix := setTranslate 2.2 0 0\<rparr>)) = 0
   \<and> cindex (run [KeyDown \<lparr>key = ''w'', which = 87\<rparr>]) \<in> {0, 1, 2, 5}"
  using cindex_tracked [where s = "initial\<lparr>modelMatrix := setTranslate 2.2 0 0\<rparr>"
          and c = 1 and p = "(2.7, - 0.5)" and d = OnRight
          and evs = "[KeyDown \<lparr>key = ''w'', which = 87\<rparr>]"]
        cindex_tracked [where s = "initial\<lparr>collisionMode := 1,
          modelMatrix := setTranslate 2.2 0 0\<rparr>"]
  by (simp add: initial_def)

subsection \<open>Keys without a binding\<close>






subsection \<open>The matrices of a frame\<close>

lemma foldl_checkCorner_inside:
  "\<forall>c\<in>set cs. firstViolation (getTransformedPosition c s) = None \<Longrightarrow>
   foldl checkCorner s cs = s"
proof (induction cs)
  case Nil
  show ?case by simp
next
  case (Cons c cs)
  then have "checkCorner s c = s"
    by (simp add: checkCorner_def firstViolation_cases Let_def split: if_splits)
  then show ?case using Cons by simp
qed

lemma detectcollision_inside:
  "\<forall>c\<in>set cornerIndexes. firstViolation (getTransformedPosition c s) = None \<Longrightarrow>
   detectcollision s = s"
  by (simp add: detectcollision_def foldl_checkCorner_inside)








text \<open>The state of a frame just before the model matrix is rebuilt.\<close>

lemma runanimation_unfold:
  "runanimation s =
     (let s3 = (detectcollision s)\<lparr>ang := js_rem (ang s + increment (detectcollision s)) 360\<rparr>;
          s4 = (if click s3 then reanchor s3 else s3)
      in rotateAndScaleAboutCorner (ang s4) (elem0 (currentCorner s4))
           (elem1 (currentCorner s4)) (tx s4) (ty s4) s4)"
  by (simp add: runanimation_def Let_def detectcollision_keeps)









subsection \<open>Selecting the pivot\<close>

lemma handleKeyPress_corner:
  assumes "(getChar e, idx) \<in> set [(''r'', 0), (''g'', 1), (''b'', 2), (''w'', 5)]"
  shows "handleKeyPress e s = s\<lparr>cindex := idx, click := True\<rparr>"
  using assms by (auto simp: handleKeyPress_def Let_def)

lemma checkCorner_click: "click s \<Longrightarrow> click (checkCorner s c)"
  by (rule checkCorner_cases [of s c]; cases "collisionMode s = 0")
     (simp_all add: processCollision_fields)

lemma foldl_checkCorner_click: "click s \<Longrightarrow> click (foldl checkCorner s cs)"
  by (induction cs arbitrary: s) (simp_all add: checkCorner_click)

lemma detectcollision_click: "click s \<Longrightarrow> click (detectcollision s)"
  by (simp add: detectcollision_def foldl_checkCorner_click)

lemma runanimation_reanchored:
  assumes "click s"
  shows "currentCorner (runanimation s) =
           multiplyVector4 (modelMatrix (detectcollision s))
             (Vector4 (fst (getVertex (cindex (detectcollision s))))
                (snd (getVertex (cindex (detectcollision s))))
                (elem2 (currentCorner s)) (elem3 (currentCorner s)))"
    and "tx (runanimation s) =
           elem0 (currentCorner (runanimation s)) - fst (getVertex (cindex (detectcollision s)))"
    and "ty (runanimation s) =
           elem1 (currentCorner (runanimation s)) - snd (getVertex (cindex (detectcollision s)))"
  using detectcollision_click [OF assms]
  by (simp_all add: runanimation_unfold Let_def rotateAndScaleAboutCorner_keeps reanchor_def
      detectcollision_keeps)

text \<open>
  C6, as the code has it. The keys r, g, b, w set the active corner to 0, 1, 2, 5 and set the
  click flag. The next frame anchors the pivot and the translation anew, from the vertex that
  is active after the collision check of that frame, under the model matrix after that check,
  and clears the flag. That vertex is the selected one when the collision mode is 1 or no
  tracked corner is outside the viewport at the start of the frame.
\<close>

theorem key_selects_pivot:
  assumes "(getChar e, idx) \<in> set [(''r'', 0), (''g'', 1), (''b'', 2), (''w'', 5)]"
  shows "cindex (handleKeyPress e s) = idx \<and> click (handleKeyPress e s)
       \<and> currentCorner (runanimation (handleKeyPress e s)) =
           multiplyVector4 (modelMatrix (detectcollision (handleKeyPress e s)))
             (Vector4 (fst (getVertex (cindex (detectcollision (handleKeyPress e s)))))
                (snd (getVertex (cindex (detectcollision (handleKeyPress e s)))))
                (elem2 (currentCorner s)) (elem3 (currentCorner s)))
       \<and> tx (runanimation (handleKeyPress e s)) =
           elem0 (currentCorner (runanimation (handleKeyPress e s)))
           - fst (getVertex (cindex (detectcollision (handleKeyPress e s))))
       \<and> ty (runanimation (handleKeyPress e s)) =
           elem1 (currentCorner (runanimation (handleKeyPress e s)))
           - snd (getVertex (cindex (detectcollision (handleKeyPress e s))))
       \<and> \<not> click (runanimation (handleKeyPress e s))
       \<and> (collisionMode s = 1
            \<or> (\<forall>c\<in>set cornerIndexes. firstViolation (getTransformedPosition c s) = None)
          \<longrightarrow> cindex (detectcollision (handleKeyPress e s)) = idx)"
proof -
  let ?s0 = "handleKeyPress e s"
  have s0: "?s0 = s\<lparr>cindex := idx, click := True\<rparr>"
    using assms by (rule handleKeyPress_corner)
  have c: "click ?s0" and i: "cindex ?s0 = idx" and cc: "currentCorner ?s0 = currentCorner s"
    by (simp_all add: s0)
  have pos: "getTransformedPosition c ?s0 = getTransformedPosition c s" for c
    by (simp add: s0 getTransformedPosition_def)
  have m: "collisionMode ?s0 = collisionMode s" by (simp add: s0)
  have sel: "cindex (detectcollision ?s0) = idx"
    if "collisionMode s = 1
        \<or> (\<forall>c\<in>set cornerIndexes. firstViolation (getTransformedPosition c s) = None)"
    using that
  proof
    assume "collisionMode s = 1"
    then show ?thesis using detectcollision_cindex(2) [of ?s0] by (simp add: m i)
  next
    assume "\<forall>c\<in>set cornerIndexes. firstViolation (getTransformedPosition c s) = None"
    then have "detectcollision ?s0 = ?s0"
      by (intro detectcollision_inside) (simp add: pos)
    then show ?thesis by (simp add: i)
  qed
  show ?thesis
    using runanimation_reanchored [OF c] sel
    by (simp add: i c cc runanimation_keeps)
qed

theorem key_selects_pivot_witness:
  "(getChar \<lparr>key = ''r'', which = 82\<rparr>, 0) \<in> set [(''r'', 0), (''g'', 1), (''b'', 2), (''w'', 5)]
   \<and> cindex (handleKeyPress \<lparr>key = ''r'', which = 82\<rparr> (initial\<lparr>cindex := 2\<rparr>)) = 0
   \<and> click (handleKeyPress \<lparr>key = ''r'', which = 82\<rparr> (initial\<lparr>cindex := 2\<rparr>))
   \<and> firstViolation (getTransformedPosition 0 (initial\<lparr>cindex := 2\<rparr>)) = None
   \<and> firstViolation (getTransformedPosition 1 (initial\<lparr>cindex := 2\<rparr>)) = None
   \<and> firstViolation (getTransformedPosition 2 (initial\<lparr>cindex := 2\<rparr>)) = None
   \<and> firstViolation (getTransformedPosition 5 (initial\<lparr>cindex := 2\<rparr>)) = None
   \<and> cindex (detectcollision
        (handleKeyPress \<lparr>key = ''r'', which = 82\<rparr> (initial\<lparr>cindex := 2\<rparr>))) = 0
   \<and> \<not> click (runanimation
        (handleKeyPress \<lparr>key = ''r'', which = 82\<rparr> (initial\<lparr>cindex := 2\<rparr>)))"
  using key_selects_pivot [where e = "\<lparr>key = ''r'', which = 82\<rparr>" and idx = 0
          and s = "initial\<lparr>cindex := 2\<rparr>"]
  by (simp add: getChar_def cornerIndexes_def firstViolation_cases getTransformedPosition_def
      vertex_values initial_def identity_def wsize_def)

text \<open>
  C6 as stated fails when the next frame has a collision in mode 0: with the square moved by
  2.2 to the right, the key w selects the corner 5, the corners 1 and 2 collide in the next
  frame, and the pivot is anchored at the vertex 2, at \<open>(2.54, 0.5)\<close>, not at the image
  \<open>(1.54, 0.5)\<close> of the selected vertex 5.
\<close>

theorem key_selects_pivot_counterexample:
  "getChar \<lparr>key = ''w'', which = 87\<rparr> = ''w''
   \<and> cindex (handleKeyPress \<lparr>key = ''w'', which = 87\<rparr>
        (initial\<lparr>modelMatrix := setTranslate 2.2 0 0\<rparr>)) = 5
   \<and> click (handleKeyPress \<lparr>key = ''w'', which = 87\<rparr>
        (initial\<lparr>modelMatrix := setTranslate 2.2 0 0\<rparr>))
   \<and> modelMatrix (detectcollision (handleKeyPress \<lparr>key = ''w'', which = 87\<rparr>
        (initial\<lparr>modelMatrix := setTranslate 2.2 0 0\<rparr>))) = setTranslate 2.04 0 0
   \<and> multiplyVector4 (setTranslate 2.04 0 0)
        (Vector4 (fst (getVertex 5)) (snd (getVertex 5)) 0 1) = Vector4 1.54 0.5 0 1
   \<and> currentCorner (runanimation (handleKeyPress \<lparr>key = ''w'', which = 87\<rparr>
        (initial\<lparr>modelMatrix := setTranslate 2.2 0 0\<rparr>))) = Vector4 2.54 0.5 0 1
   \<and> tx (runanimation (handleKeyPress \<lparr>key = ''w'', which = 87\<rparr>
        (initial\<lparr>modelMatrix := setTranslate 2.2 0 0\<rparr>))) = 2.04
   \<and> ty (runanimation (handleKeyPress \<lparr>key = ''w'', which = 87\<rparr>
        (initial\<lparr>modelMatrix := setTranslate 2.2 0 0\<rparr>))) = 0
   \<and> cindex (runanimation (handleKeyPress \<lparr>key = ''w'', which = 87\<rparr>
        (initial\<lparr>modelMatrix := setTranslate 2.2 0 0\<rparr>))) = 2"
  by (simp add: getChar_def handleKeyPress_def runanimation_def detectcollision_def
      cornerIndexes_def checkCorner_def processCollision_def fixTranslation_def reanchor_def
      getTransformedPosition_def vertex_values initial_def wsize_def Let_def
      rotateAndScaleAboutCorner_def setTranslate_def)

subsection \<open>Geometry\<close>

lemma numPoints_value: "numPoints = 6"
  by (simp add: numPoints_def vertices_def)

lemma triangle_indices: "[0 ..< numPoints div 3] = [0, 1]"
proof -
  have "numPoints div 3 = Suc (Suc 0)" by (simp add: numPoints_value)
  then show ?thesis by simp
qed

lemma vertex_values2:
  "getVertex 3 = (- 0.5, - 0.5)" "getVertex 4 = (0.5, 0.5)"
  "getVertex (Suc (Suc 0)) = (0.5, 0.5)"
  by (simp_all add: getVertex_def numPoints_value vertices_def)

lemma triangles_values:
  "triangles = [((- 0.5, - 0.5), (0.5, - 0.5), (0.5, 0.5)),
                ((- 0.5, - 0.5), (0.5, 0.5), (- 0.5, 0.5))]"
  by (simp add: triangles_def triangle_indices triangle_def vertex_values vertex_values2)

text \<open>
  C7. The vertex buffer holds 6 vertices of two coordinates each, the color buffer 6 colors of
  four components each, and the two triangles drawn from the vertices cover exactly the square
  \<open>[-0.5, 0.5] x [-0.5, 0.5]\<close>.
\<close>

theorem square_geometry:
  "length vertices = 2 * numPoints \<and> numPoints = 6 \<and> length colors = 4 * numPoints
   \<and> length triangles = 2
   \<and> (\<forall>x y. (\<exists>t\<in>set triangles. inTriangle (x, y) t) \<longleftrightarrow>
         (- 0.5 \<le> x \<and> x \<le> 0.5 \<and> - 0.5 \<le> y \<and> y \<le> 0.5))"
proof -
  have cover: "(\<exists>t\<in>set triangles. inTriangle (x, y) t) \<longleftrightarrow>
         (- 0.5 \<le> x \<and> x \<le> 0.5 \<and> - 0.5 \<le> y \<and> y \<le> 0.5)" for x y :: real
  proof -
    have t1: "inTriangle (x, y) ((- 0.5, - 0.5), (0.5, - 0.5), (0.5, 0.5)) \<longleftrightarrow>
        (- 0.5 \<le> y \<and> x \<le> 0.5 \<and> y \<le> x)"
      by (simp add: inTriangle_def edge_def Let_def) linarith
    have t2: "inTriangle (x, y) ((- 0.5, - 0.5), (0.5, 0.5), (- 0.5, 0.5)) \<longleftrightarrow>
        (x \<le> y \<and> y \<le> 0.5 \<and> - 0.5 \<le> x)"
      by (simp add: inTriangle_def edge_def Let_def) linarith
    show ?thesis
      unfolding triangles_values using t1 t2 by auto
  qed
  have sizes: "length vertices = 2 * numPoints" "numPoints = 6" "length colors = 4 * numPoints"
    by (simp_all add: numPoints_value) (simp_all add: vertices_def colors_def)
  have "length triangles = 2" by (simp add: triangles_values)
  with sizes cover show ?thesis by blast
qed

theorem square_geometry_witness:
  "inTriangle (0.25, 0) (triangles ! 0) \<and> - 0.5 \<le> (0.25::real) \<and> (0.25::real) \<le> 0.5
   \<and> \<not> inTriangle (0.25, 0.75) (triangles ! 0) \<and> \<not> inTriangle (0.25, 0.75) (triangles ! 1)
   \<and> \<not> (0.75::real) \<le> 0.5"
  using square_geometry
  by (simp add: triangles_values inTriangle_def edge_def Let_def)

end
